theory Spec2Isabelle
  imports Complex_Main "HOL-Library.Word"
begin

unbundle bit_operations_syntax

section \<open>Carriers\<close>

text \<open>
  The sample program of CxxSwizzle (\<^verbatim>\<open>sample/main.cpp\<close>) evaluates a GLSL-style
  fragment shader on the CPU.  Its \<^verbatim>\<open>float_type\<close> is a single float in the scalar
  build and a pack of \<^verbatim>\<open>scalar_count\<close> floats in the SIMD build; every operation on a
  pack acts lane by lane, so functions on \<^verbatim>\<open>float_type\<close> are given here for one lane
  and a pack is a list of lanes.

  A lane is a \<^typ>\<open>real\<close>: arithmetic is exact, the rounding of IEEE binary32 is not
  part of this development.  The concrete evaluations below only use dyadic
  values (0.25, 0.5, 0.75, 127.75, ...) that binary32 represents exactly.
\<close>

type_synonym vec2 = "real \<times> real"
type_synonym vec4 = "real \<times> real \<times> real \<times> real"

text \<open>
  \<^verbatim>\<open>static_cast<uint_type>(static_cast<raw_float_type>(v))\<close>: conversion of a float
  to a 32-bit unsigned integer discards the fractional part (rounds towards zero).
\<close>

definition truncate_f :: "real \<Rightarrow> int" where
  "truncate_f v = (if 0 \<le> v then \<lfloor>v\<rfloor> else \<lceil>v\<rceil>)"

definition to_uint :: "real \<Rightarrow> 32 word" where
  "to_uint v = word_of_int (truncate_f v)"

section \<open>The vector functions used by the sample\<close>

text \<open>
  Modelled from the spec: the header \<^verbatim>\<open>swizzle/glsl/vector_functions.h\<close>, which
  declares \<^verbatim>\<open>clamp\<close>, \<^verbatim>\<open>mod\<close>, \<^verbatim>\<open>step\<close>, \<^verbatim>\<open>mix\<close> and \<^verbatim>\<open>abs\<close>, is not among the
  sources.  The spec names them the elementwise \<^verbatim>\<open>clamp/mix/mod/abs/step\<close> of a
  GLSL vector algebra: \<^verbatim>\<open>clamp\<close> restricts to an interval, \<^verbatim>\<open>mod x 1\<close> is the
  non-negative fractional part, \<^verbatim>\<open>step\<close> is the threshold function and \<^verbatim>\<open>mix\<close> is
  linear interpolation (lerp).  \<^verbatim>\<open>abs\<close> is \<^term>\<open>abs\<close> of HOL.
\<close>

definition clamp_f :: "real \<Rightarrow> real \<Rightarrow> real \<Rightarrow> real" where
  "clamp_f x minVal maxVal = min (max x minVal) maxVal"

definition mod_f :: "real \<Rightarrow> real \<Rightarrow> real" where
  "mod_f x y = x - y * of_int \<lfloor>x / y\<rfloor>"

definition step_f :: "real \<Rightarrow> real \<Rightarrow> real" where
  "step_f edge x = (if x < edge then 0 else 1)"

definition mix_f :: "real \<Rightarrow> real \<Rightarrow> real \<Rightarrow> real" where
  "mix_f x y a = x * (1 - a) + y * a"

definition mix4 :: "vec4 \<Rightarrow> vec4 \<Rightarrow> real \<Rightarrow> vec4" where
  "mix4 p q a =
     (case (p, q) of ((p1, p2, p3, p4), (q1, q2, q3, q4)) \<Rightarrow>
        (mix_f p1 q1 a, mix_f p2 q2 a, mix_f p3 q3 a, mix_f p4 q4 a))"

definition clamp4 :: "vec4 \<Rightarrow> real \<Rightarrow> real \<Rightarrow> vec4" where
  "clamp4 p minVal maxVal =
     (case p of (p1, p2, p3, p4) \<Rightarrow>
        (clamp_f p1 minVal maxVal, clamp_f p2 minVal maxVal,
         clamp_f p3 minVal maxVal, clamp_f p4 minVal maxVal))"

section \<open>The texture sampler\<close>

datatype WrapMode = Clamp | Repeat | MirrorRepeat

text \<open>The fields of SDL's pixel format and surface that \<^verbatim>\<open>sampler2D::sample\<close> reads.\<close>

record SDL_PixelFormat =
  BytesPerPixel :: nat
  Rmask :: "32 word"
  Gmask :: "32 word"
  Bmask :: "32 word"
  Amask :: "32 word"
  Rshift :: nat
  Gshift :: nat
  Bshift :: nat
  Ashift :: nat

record SDL_Surface =
  surf_w :: int
  surf_h :: int
  surf_pitch :: nat
  surf_format :: SDL_PixelFormat
  surf_pixels :: "8 word list"

record sampler2D =
  m_image :: "SDL_Surface option"
  m_wrapMode :: WrapMode

text \<open>The \<^verbatim>\<open>switch (m_wrapMode)\<close> at the head of \<^verbatim>\<open>sampler2D::sample\<close>, on both axes.\<close>

fun wrap_axis :: "WrapMode \<Rightarrow> real \<Rightarrow> real" where
  "wrap_axis Repeat c = mod_f c 1"
| "wrap_axis MirrorRepeat c = \<bar>mod_f (c - 1) 2 - 1\<bar>"
| "wrap_axis Clamp c = clamp_f c 0 1"

definition wrap_coord :: "WrapMode \<Rightarrow> vec2 \<Rightarrow> vec2" where
  "wrap_coord m coord = (wrap_axis m (fst coord), wrap_axis m (snd coord))"

text \<open>The procedural fallback (\<^verbatim>\<open>// checkers\<close>), applied to the flipped \<^verbatim>\<open>uv\<close>.\<close>

definition checkers :: "vec2 \<Rightarrow> vec4" where
  "checkers uv =
     (let sx = step_f (1 / 2) (fst uv);
          sy = step_f (1 / 2) (snd uv);
          m2 = \<bar>sx - sy\<bar>
      in mix4 (1, 0, 0, 1) (0, 1, 0, 1) m2)"

text \<open>
  The inner \<^verbatim>\<open>for\<close> loop that assembles a packed pixel from \<^verbatim>\<open>BytesPerPixel\<close> bytes,
  least significant first.  A read past the end of the pixel storage is \<^term>\<open>None\<close>.
\<close>

definition read_pixel :: "8 word list \<Rightarrow> nat \<Rightarrow> nat \<Rightarrow> 32 word option" where
  "read_pixel px index bpp =
     (if index + bpp \<le> length px
      then Some (fold (\<lambda>i pixel. pixel OR push_bit (i * 8) (ucast (px ! (index + i))))
                   [0..<bpp] 0)
      else None)"

definition channel :: "32 word \<Rightarrow> 32 word \<Rightarrow> nat \<Rightarrow> real" where
  "channel pixel msk shift = real (unat (drop_bit shift (pixel AND msk)))"

definition fetch :: "SDL_Surface \<Rightarrow> vec2 \<Rightarrow> vec4 option" where
  "fetch img uv =
     (let x = to_uint (fst uv * real_of_int (surf_w img - 1) + 1 / 2);
          y = to_uint (snd uv * real_of_int (surf_h img - 1) + 1 / 2);
          fmt = surf_format img;
          index = y * word_of_nat (surf_pitch img) + x * word_of_nat (BytesPerPixel fmt)
      in case read_pixel (surf_pixels img) (unat index) (BytesPerPixel fmt) of
           None \<Rightarrow> None
         | Some pixel \<Rightarrow>
             (let r = channel pixel (Rmask fmt) (Rshift fmt);
                  g = channel pixel (Gmask fmt) (Gshift fmt);
                  b = channel pixel (Bmask fmt) (Bshift fmt);
                  a = (if Amask fmt \<noteq> 0 then channel pixel (Amask fmt) (Ashift fmt) else 255)
              in Some (clamp4 (r / 255, g / 255, b / 255, a / 255) 0 1)))"

definition sample :: "sampler2D \<Rightarrow> vec2 \<Rightarrow> vec4 option" where
  "sample s coord =
     (let uv = wrap_coord (m_wrapMode s) coord;
          uv = (fst uv, 1 - snd uv)
      in case m_image s of
           None \<Rightarrow> Some (checkers uv)
         | Some img \<Rightarrow> fetch img uv)"

section \<open>The render worker\<close>

subsection \<open>Quantisation of a colour channel\<close>

text \<open>
  \<^verbatim>\<open>auto color = clamp(shader.gl_FragColor, c_zero, c_one); color *= 255 + 0.5f;\<close>
  followed by the conversion to \<^verbatim>\<open>uint_type\<close> and the cast to \<^verbatim>\<open>uint8_t\<close>.  The
  right-hand side of \<^verbatim>\<open>*=\<close> is the single factor \<^verbatim>\<open>255 + 0.5f\<close>.
\<close>

definition quantize :: "real \<Rightarrow> 8 word" where
  "quantize c = ucast (to_uint (clamp_f c 0 1 * (255 + 1 / 2)))"

definition quantize_rgb :: "vec4 \<Rightarrow> 8 word \<times> 8 word \<times> 8 word" where
  "quantize_rgb color =
     (case color of (r, g, b, a) \<Rightarrow> (quantize r, quantize g, quantize b))"

subsection \<open>One batch of lanes\<close>

text \<open>
  Memory is a store from byte offsets, counted from \<^verbatim>\<open>bmp->pixels\<close>, to bytes.  The
  \<^verbatim>\<open>static_for\<close> over the lanes writes three bytes per lane through \<^verbatim>\<open>*ptr++\<close>.
\<close>

type_synonym memory = "int \<Rightarrow> 8 word"

fun scatter :: "memory \<Rightarrow> int \<Rightarrow> (8 word \<times> 8 word \<times> 8 word) list \<Rightarrow> memory" where
  "scatter mem ptr [] = mem"
| "scatter mem ptr ((r, g, b) # lanes) =
     scatter (mem(ptr := r, ptr + 1 := g, ptr + 2 := b)) (ptr + 3) lanes"

text \<open>
  \<^verbatim>\<open>shader.gl_FragCoord.x = static_cast<float>(x) + offsets\<close>, where \<^verbatim>\<open>offsets\<close> holds
  \<^verbatim>\<open>0, 1, ..., scalar_count - 1\<close>; \<^verbatim>\<open>gl_FragCoord.y\<close> is the same in every lane.
\<close>

definition frag_coords :: "nat \<Rightarrow> int \<Rightarrow> real \<Rightarrow> vec2 list" where
  "frag_coords N x fragY = map (\<lambda>i. (real_of_int x + real i, fragY)) [0..<N]"

record batch =
  b_row :: int
  b_fragY :: real
  b_x :: int
  b_ptr :: int

text \<open>
  The body of the inner loop after the clamp of \<^verbatim>\<open>x\<close>: the shader (a function from
  \<^verbatim>\<open>gl_FragCoord\<close> to \<^verbatim>\<open>gl_FragColor\<close>, the globals fixed for the frame) runs on
  every lane and the quantised colours are stored at \<^verbatim>\<open>ptr\<close>.
\<close>

definition render_batch :: "(vec2 \<Rightarrow> vec4) \<Rightarrow> nat \<Rightarrow> batch \<Rightarrow> memory \<Rightarrow> memory" where
  "render_batch shader N b mem =
     scatter mem (b_ptr b)
       (map (\<lambda>fc. quantize_rgb (shader fc)) (frag_coords N (b_x b) (b_fragY b)))"

subsection \<open>The scan of a row and of a frame\<close>

text \<open>
  The control of the inner loop
  \<^verbatim>\<open>for (int x = 0; x < bmp->w; x += scalar_count)\<close> with its clamp
  \<^verbatim>\<open>if (x > limitX) { ptr -= 3 * (x - limitX); x = limitX; }\<close>:
  the list of the pairs \<^verbatim>\<open>(x, ptr)\<close> with which the body runs.  \<^verbatim>\<open>scalar_count\<close> is a
  positive constant of the build; the test \<open>0 < N\<close> only makes the function total.
\<close>

function row_loop :: "nat \<Rightarrow> int \<Rightarrow> int \<Rightarrow> int \<Rightarrow> (int \<times> int) list" where
  "row_loop N w x ptr =
     (if x < w \<and> 0 < N then
        (let limitX = w - int N;
             ptr' = (if x > limitX then ptr - 3 * (x - limitX) else ptr);
             x' = (if x > limitX then limitX else x)
         in (x', ptr') # row_loop N w (x' + int N) (ptr' + 3 * int N))
      else [])"
  by pat_completeness auto
termination
  by (relation "measure (\<lambda>(N, w, x, ptr). nat (w - x))") auto

text \<open>
  The control of the outer loop
  \<^verbatim>\<open>for (int y = heightStart; !g_cancelDraw && y < heightEnd; y += heightStep)\<close>.
  \<^verbatim>\<open>g_cancelDraw\<close> is set by the display loop while the worker runs; \<open>cancel y\<close> is
  the value the worker reads when it tests the loop condition for row \<open>y\<close>.
  \<^verbatim>\<open>heightStep\<close> is 1 and \<^verbatim>\<open>heightStart\<close> is 0; in a build with OpenMP every thread
  runs the loop with its own number as \<^verbatim>\<open>heightStart\<close> and the number of threads as
  \<^verbatim>\<open>heightStep\<close>.  The step is positive; the test \<open>0 < heightStep\<close> only makes the
  function total.
\<close>

function scan_rows :: "(int \<Rightarrow> bool) \<Rightarrow> int \<Rightarrow> int \<Rightarrow> int \<Rightarrow> int list" where
  "scan_rows cancel heightStep heightEnd y =
     (if \<not> cancel y \<and> y < heightEnd \<and> 0 < heightStep
      then y # scan_rows cancel heightStep heightEnd (y + heightStep)
      else [])"
  by pat_completeness auto
termination
  by (relation "measure (\<lambda>(cancel, heightStep, heightEnd, y). nat (heightEnd - y))") auto

text \<open>
  One row: \<^verbatim>\<open>shader.gl_FragCoord.y = static_cast<float>(bmp->h - 1 - y)\<close> and
  \<^verbatim>\<open>ptr = pixels + y * bmp->pitch\<close>, then the inner loop from \<^verbatim>\<open>x = 0\<close>.
\<close>

record bitmap =
  bmp_w :: int
  bmp_h :: int
  bmp_pitch :: int

definition row_batches :: "bitmap \<Rightarrow> nat \<Rightarrow> int \<Rightarrow> batch list" where
  "row_batches bmp N y =
     map (\<lambda>(x, ptr). \<lparr>b_row = y, b_fragY = real_of_int (bmp_h bmp - 1 - y), b_x = x, b_ptr = ptr\<rparr>)
       (row_loop N (bmp_w bmp) 0 (y * bmp_pitch bmp))"

definition frame_batches :: "(int \<Rightarrow> bool) \<Rightarrow> int \<Rightarrow> int \<Rightarrow> bitmap \<Rightarrow> nat \<Rightarrow> batch list" where
  "frame_batches cancel heightStart heightStep bmp N =
     concat (map (row_batches bmp N) (scan_rows cancel heightStep (bmp_h bmp) heightStart))"

definition render_frame ::
  "(vec2 \<Rightarrow> vec4) \<Rightarrow> (int \<Rightarrow> bool) \<Rightarrow> int \<Rightarrow> int \<Rightarrow> bitmap \<Rightarrow> nat \<Rightarrow> memory \<Rightarrow> memory" where
  "render_frame shader cancel heightStart heightStep bmp N mem =
     fold (render_batch shader N) (frame_batches cancel heightStart heightStep bmp N) mem"

section \<open>The command line and the top level of main\<close>

subsection \<open>Reading the resolution\<close>

text \<open>
  Modelled from the spec: \<^verbatim>\<open>operator>>\<close> of \<^verbatim>\<open>swizzle::glsl::vector<int, 2>\<close> is
  declared in \<^verbatim>\<open>swizzle/glsl/vector.h\<close>, which is not among the sources.  The spec
  describes the argument as "two integers, any non-digit delimiter accepted by the
  collaborator's numeric-stream parser": an integer (an optional sign and at least
  one decimal digit), one delimiter character, and a second integer.  What follows
  the second integer is not read.
\<close>

definition digit_val :: "char \<Rightarrow> nat option" where
  "digit_val c =
     (let n = (of_char c :: nat) in if 48 \<le> n \<and> n \<le> 57 then Some (n - 48) else None)"

fun read_digits :: "string \<Rightarrow> nat \<Rightarrow> nat \<times> string" where
  "read_digits [] acc = (acc, [])"
| "read_digits (c # cs) acc =
     (case digit_val c of
        None \<Rightarrow> (acc, c # cs)
      | Some d \<Rightarrow> read_digits cs (10 * acc + d))"

definition read_int :: "string \<Rightarrow> (int \<times> string) option" where
  "read_int s =
     (let (negative, body) =
            (case s of
               [] \<Rightarrow> (False, s)
             | c # cs \<Rightarrow>
                 if c = CHR ''-'' then (True, cs)
                 else if c = CHR ''+'' then (False, cs)
                 else (False, s))
      in case body of
           [] \<Rightarrow> None
         | c # cs \<Rightarrow>
             (case digit_val c of
                None \<Rightarrow> None
              | Some d \<Rightarrow>
                  (let (n, rest) = read_digits body 0
                   in Some (if negative then - int n else int n, rest))))"

definition parse_resolution :: "string \<Rightarrow> (int \<times> int) option" where
  "parse_resolution s =
     (case read_int s of
        None \<Rightarrow> None
      | Some (x, rest) \<Rightarrow>
          (case rest of
             [] \<Rightarrow> None
           | delimiter # rest' \<Rightarrow>
               (case read_int rest' of
                  None \<Rightarrow> None
                | Some (y, rest'') \<Rightarrow> Some (x, y))))"

subsection \<open>main\<close>

text \<open>
  What main writes to \<^verbatim>\<open>cerr\<close>:
  "WARNING: failed to initialise required jpg and png support: ...",
  "ERROR: unable to parse resolution argument",
  "ERROR: invalid resolution: " followed by the vector, and
  "ERROR: " followed by the text of a caught exception
  ("Unknown error" for one that is not a \<^verbatim>\<open>std::exception\<close>).
  The keys that main lists on \<^verbatim>\<open>cout\<close> and its status line are left out.
\<close>

datatype message =
  Warning_image_support
| Unable_to_parse
| Invalid_resolution int int
| Error string

datatype exn = Runtime_error string | Unknown_exception

fun error_message :: "exn \<Rightarrow> message" where
  "error_message (Runtime_error what) = Error what"
| "error_message Unknown_exception = Error ''Unknown error''"

text \<open>
  Lines 352 to 370: the initial resolution is 128 by 128, is read from the argument
  when there is exactly one, and is then checked.  \<^verbatim>\<open>argv\<close> starts with the name of
  the program.
\<close>

definition initial_resolution :: "string list \<Rightarrow> message + (int \<times> int)" where
  "initial_resolution argv =
     (case (if length argv = 2 then parse_resolution (argv ! 1) else Some (128, 128)) of
        None \<Rightarrow> Inl Unable_to_parse
      | Some (x, y) \<Rightarrow>
          if x \<le> 0 \<or> y < 0 then Inl (Invalid_resolution x y) else Inr (x, y))"

text \<open>
  The calls into SDL and SDL_image that main makes, in order, and what the build and
  the environment answer: whether \<^verbatim>\<open>SDLIMAGE_FOUND\<close> is defined and \<^verbatim>\<open>IMG_Init\<close>
  returns the flags asked for, the value of \<^verbatim>\<open>SDL_Init\<close>, whether
  \<^verbatim>\<open>SDL_SetVideoMode\<close> and \<^verbatim>\<open>SDL_CreateRGBSurface\<close> return a surface, and how the
  display loop ends once the render thread runs (it leaves by \<^verbatim>\<open>g_quit\<close>, an
  exception leaves it, or it runs for ever).
\<close>

datatype sdl_call =
  IMG_Init
| SDL_Init
| SDL_EnableKeyRepeat
| SDL_WM_SetCaption
| SDL_SetVideoMode int int
| SDL_CreateRGBSurface int int
| SDL_CreateThread
| SDL_WaitThread
| SDL_Quit

datatype loop_outcome = Loop_quit | Loop_throws exn | Loop_forever

record sdl_env =
  sdlimage_found :: bool
  img_init_ok :: bool
  sdl_init_result :: int
  video_mode_ok :: bool
  rgb_surface_ok :: bool
  display_loop :: loop_outcome

text \<open>
  The \<^verbatim>\<open>try\<close> block: the calls made and how the block ends (\<^term>\<open>None\<close> when the
  display loop never ends, else the exception thrown or normal completion).
\<close>

definition try_block :: "sdl_env \<Rightarrow> int \<Rightarrow> int \<Rightarrow> sdl_call list \<times> (exn + unit) option" where
  "try_block env w h =
     (if sdl_init_result env < 0 then
        ([SDL_Init], Some (Inl (Runtime_error ''Unable to init SDL'')))
      else if \<not> video_mode_ok env then
        ([SDL_Init, SDL_EnableKeyRepeat, SDL_WM_SetCaption, SDL_SetVideoMode w h],
         Some (Inl (Runtime_error ''Unable to set video mode'')))
      else if \<not> rgb_surface_ok env then
        ([SDL_Init, SDL_EnableKeyRepeat, SDL_WM_SetCaption, SDL_SetVideoMode w h,
          SDL_CreateRGBSurface w h],
         Some (Inl (Runtime_error ''Unable to create surface'')))
      else
        (let setup = [SDL_Init, SDL_EnableKeyRepeat, SDL_WM_SetCaption, SDL_SetVideoMode w h,
                      SDL_CreateRGBSurface w h, SDL_CreateThread]
         in case display_loop env of
              Loop_forever \<Rightarrow> (setup, None)
            | Loop_throws e \<Rightarrow> (setup, Some (Inl e))
            | Loop_quit \<Rightarrow> (setup @ [SDL_WaitThread], Some (Inr ()))))"

record exit_status =
  exit_code :: int
  cerr :: "message list"
  sdl_calls :: "sdl_call list"

text \<open>The first lines of main, compiled only with \<^verbatim>\<open>SDLIMAGE_FOUND\<close>.\<close>

definition img_init :: "sdl_env \<Rightarrow> sdl_call list \<times> message list" where
  "img_init env =
     (if sdlimage_found env
      then ([IMG_Init], if img_init_ok env then [] else [Warning_image_support])
      else ([], []))"

text \<open>main: \<^term>\<open>None\<close> when it does not return.\<close>

definition main :: "string list \<Rightarrow> sdl_env \<Rightarrow> exit_status option" where
  "main argv env =
     (let (image_calls, warnings) = img_init env
      in case initial_resolution argv of
           Inl msg \<Rightarrow>
             Some \<lparr>exit_code = 1, cerr = warnings @ [msg], sdl_calls = image_calls\<rparr>
         | Inr (w, h) \<Rightarrow>
             (case try_block env w h of
                (calls, None) \<Rightarrow> None
              | (calls, Some (Inl e)) \<Rightarrow>
                  Some \<lparr>exit_code = 0, cerr = warnings @ [error_message e],
                        sdl_calls = image_calls @ calls @ [SDL_Quit]\<rparr>
              | (calls, Some (Inr u)) \<Rightarrow>
                  Some \<lparr>exit_code = 0, cerr = warnings,
                        sdl_calls = image_calls @ calls @ [SDL_Quit]\<rparr>))"

section \<open>The display loop's side of the frame handshake\<close>

text \<open>
  The block of the display loop that runs under \<^verbatim>\<open>g_frameHandshakeMutex\<close> (lines 497
  to 543 of main), as a function on the variables it reads and writes.  The first
  seven fields are shared with the render worker; the others are locals of main.
  Only the dimensions of a surface are kept.
\<close>

record display =
  g_frameReady :: bool
  g_cancelDraw :: bool
  g_quit :: bool
  sandbox_time :: real
  sandbox_mouse :: vec2
  sandbox_resolution :: vec2
  g_surface :: "int \<times> int"
  screen :: "int \<times> int"
  pendingResize :: bool
  time :: real
  mousePosition :: vec2
  lastFPS :: real
  frameBegin :: int
  frame :: int

datatype effect =
  CondSignal_frameReceived
| BlitSurface
| CreateSurface int int
| Flip

text \<open>
  What the environment answers during one pass: whether
  \<^verbatim>\<open>SDL_CondWaitTimeout\<close> returns 0, the value of \<^verbatim>\<open>g_frameReady\<close> when that wait
  returns (the mutex is released while waiting, and the worker sets the flag before
  it signals), whether \<^verbatim>\<open>SDL_CreateRGBSurface\<close> returns a surface, and the clock.
\<close>

record pass_env =
  wait_signalled :: bool
  ready_after_wait :: bool
  surface_created :: bool
  clock_now :: int
  clocks_per_sec :: int

text \<open>\<^verbatim>\<open>if (pendingResize) { resizeOrCreateSurface(screen->w, screen->h); pendingResize = false; }\<close>\<close>

definition apply_pending_resize :: "pass_env \<Rightarrow> display \<Rightarrow> exn + (effect list \<times> display)" where
  "apply_pending_resize env s =
     (if pendingResize s then
        (if surface_created env then
           Inr ([CreateSurface (fst (screen s)) (snd (screen s))],
                s\<lparr>g_surface := screen s,
                  sandbox_resolution :=
                    (real_of_int (fst (screen s)), real_of_int (snd (screen s))),
                  pendingResize := False\<rparr>)
         else Inl (Runtime_error ''Unable to create surface''))
      else Inr ([], s))"

text \<open>\<^verbatim>\<open>if (g_frameReady) { ... lastFPS = ...; frameBegin = currClock; }\<close>\<close>

definition update_fps :: "pass_env \<Rightarrow> display \<Rightarrow> display" where
  "update_fps env s =
     (if g_frameReady s then
        s\<lparr>lastFPS :=
            1 / (real_of_int (clock_now env - frameBegin s) / real_of_int (clocks_per_sec env)),
          frameBegin := clock_now env\<rparr>
      else s)"

text \<open>
  \<^verbatim>\<open>if (!blitNow || g_frameReady)\<close>: transfer of the variables, reset of the flags and
  the signal to the worker.
\<close>

definition transfer :: "bool \<Rightarrow> display \<Rightarrow> effect list \<times> display" where
  "transfer blitNow s =
     (if \<not> blitNow \<or> g_frameReady s then
        ([CondSignal_frameReceived],
         s\<lparr>sandbox_time := time s,
           sandbox_mouse :=
             (fst (mousePosition s) / real_of_int (fst (screen s)),
              snd (mousePosition s) / real_of_int (snd (screen s))),
           g_cancelDraw := False,
           g_frameReady := False\<rparr>)
      else ([], s))"

text \<open>\<^verbatim>\<open>if (doFlip) { ++frame; SDL_Flip(screen); }\<close>\<close>

definition flip :: "bool \<Rightarrow> display \<Rightarrow> effect list \<times> display" where
  "flip doFlip s = (if doFlip then ([Flip], s\<lparr>frame := frame s + 1\<rparr>) else ([], s))"

text \<open>
  The whole block.  \<^verbatim>\<open>||\<close> evaluates from the left and stops at the first true
  operand, so the timed wait happens only when \<^verbatim>\<open>blitNow\<close> and \<^verbatim>\<open>g_frameReady\<close> are
  both false.
\<close>

definition handshake_block :: "bool \<Rightarrow> pass_env \<Rightarrow> display \<Rightarrow> exn + (effect list \<times> display)" where
  "handshake_block blitNow env s =
     (if g_quit s then
        Inr (if g_frameReady s then [CondSignal_frameReceived] else [], s)
      else
        (let waits = \<not> blitNow \<and> \<not> g_frameReady s;
             s1 = (if waits then s\<lparr>g_frameReady := ready_after_wait env\<rparr> else s)
         in if blitNow \<or> g_frameReady s \<or> wait_signalled env then
              (case apply_pending_resize env s1 of
                 Inl e \<Rightarrow> Inl e
               | Inr (created, s2) \<Rightarrow>
                   (let s3 = update_fps env s2;
                        (signalled, s4) = transfer blitNow s3;
                        (flipped, s5) = flip True s4
                    in Inr (BlitSurface # created @ signalled @ flipped, s5)))
            else Inr ([], s1)))"

section \<open>Concrete inputs used in the evaluations\<close>



text \<open>
  The display loop in the middle of a frame: the worker has not finished
  (\<^verbatim>\<open>g_frameReady\<close> is false), the window was resized to 64 by 32 and the user
  pressed space.
\<close>

definition preview_state :: display where
  "preview_state =
     \<lparr>g_frameReady = False, g_cancelDraw = True, g_quit = False,
      sandbox_time = 1, sandbox_mouse = (0, 0), sandbox_resolution = (128, 128),
      g_surface = (128, 128), screen = (64, 32), pendingResize = True,
      time = 5, mousePosition = (3, 4), lastFPS = 0, frameBegin = 0, frame = 7\<rparr>"

definition preview_env :: pass_env where
  "preview_env =
     \<lparr>wait_signalled = False, ready_after_wait = False, surface_created = True,
      clock_now = 1000, clocks_per_sec = 1000\<rparr>"

text \<open>
  Environments in which one step of the set-up of main fails, or the display loop
  ends in a given way; the build is without SDL_image.
\<close>

definition failing_env :: "int \<Rightarrow> bool \<Rightarrow> bool \<Rightarrow> loop_outcome \<Rightarrow> sdl_env" where
  "failing_env init video surface loop =
     \<lparr>sdlimage_found = False, img_init_ok = False, sdl_init_result = init,
      video_mode_ok = video, rgb_surface_ok = surface, display_loop = loop\<rparr>"

section \<open>The sampler: wrap modes and the procedural fallback\<close>









lemmas fallback_simps =
  sample_def wrap_coord_def mod_f_def clamp_f_def checkers_def step_f_def mix4_def mix_f_def

text \<open>
  Claim C3, as stated, fails: \<^const>\<open>sample\<close> flips the vertical coordinate before it
  evaluates the checkerboard, so without an image the coordinate (0.25, 0.25) is
  looked up at \<open>uv = (0.25, 0.75)\<close>, where \<open>step\<close> gives \<open>(0, 1)\<close>, \<open>m = 1\<close> and the
  result is green, not red.
\<close>

theorem sample_checkers_quarter_is_green:
  "sample \<lparr>m_image = None, m_wrapMode = Repeat\<rparr> (1 / 4, 1 / 4) = Some (0, 1, 0, 1) \<and>
   sample \<lparr>m_image = None, m_wrapMode = Repeat\<rparr> (1 / 4, 1 / 4) \<noteq> Some (1, 0, 0, 1)"
  by (simp add: fallback_simps)

text \<open>
  Claim C3, amended.  The colours the claim lists are those of the checkerboard at the
  flipped \<open>uv\<close>: \<^const>\<open>checkers\<close> is red at (0.25, 0.25) and (0.75, 0.75) and green at
  (0.25, 0.75) and (0.75, 0.25).  \<^const>\<open>sample\<close> applies it after \<open>uv.y := 1 - uv.y\<close>,
  so with no image, in every wrap mode, \<^const>\<open>sample\<close> returns red at the coordinates
  (0.25, 0.75) and (0.75, 0.25) and green at (0.25, 0.25) and (0.75, 0.75).
\<close>

theorem sample_checkers_after_flip:
  "checkers (1 / 4, 1 / 4) = (1, 0, 0, 1) \<and> checkers (3 / 4, 3 / 4) = (1, 0, 0, 1) \<and>
   checkers (1 / 4, 3 / 4) = (0, 1, 0, 1) \<and> checkers (3 / 4, 1 / 4) = (0, 1, 0, 1) \<and>
   sample \<lparr>m_image = None, m_wrapMode = wm\<rparr> (1 / 4, 3 / 4) = Some (1, 0, 0, 1) \<and>
   sample \<lparr>m_image = None, m_wrapMode = wm\<rparr> (3 / 4, 1 / 4) = Some (1, 0, 0, 1) \<and>
   sample \<lparr>m_image = None, m_wrapMode = wm\<rparr> (1 / 4, 1 / 4) = Some (0, 1, 0, 1) \<and>
   sample \<lparr>m_image = None, m_wrapMode = wm\<rparr> (3 / 4, 3 / 4) = Some (0, 1, 0, 1)"
  by (cases wm) (simp_all add: fallback_simps)

section \<open>The render worker: quantisation and the scan\<close>

declare row_loop.simps [simp del]
declare scan_rows.simps [simp del]

subsection \<open>The bytes of a batch\<close>

lemma ucast_down: "(ucast (word_of_int n :: 32 word) :: 8 word) = word_of_int n"
  by (rule bit_word_eqI) (auto simp: bit_ucast_iff bit_word_of_int_iff)

lemma clamp_f_unit: "0 \<le> clamp_f c 0 1 \<and> clamp_f c 0 1 \<le> 1"
  by (simp add: clamp_f_def)

text \<open>The byte of a channel is the integer part of the clamped value times 255.5.\<close>

lemma quantize_floor: "quantize c = word_of_int \<lfloor>clamp_f c 0 1 * (511 / 2)\<rfloor>"
  using clamp_f_unit[of c] by (simp add: quantize_def to_uint_def truncate_f_def ucast_down)

lemma quantize_ends: "quantize 0 = 0 \<and> quantize 1 = 255"
  by (simp add: quantize_def clamp_f_def to_uint_def truncate_f_def)

text \<open>
  Lane \<open>i\<close> of a batch stores the quantised red, green and blue of its colour at
  \<open>ptr + 3 i\<close>, \<open>ptr + 3 i + 1\<close> and \<open>ptr + 3 i + 2\<close>.
\<close>

lemma scatter_below: "a < ptr \<Longrightarrow> scatter mem ptr lanes a = mem a"
  by (induction mem ptr lanes rule: scatter.induct) auto

lemma scatter_lane:
  "i < length lanes \<Longrightarrow>
   scatter mem ptr lanes (ptr + 3 * int i) = fst (lanes ! i) \<and>
   scatter mem ptr lanes (ptr + 3 * int i + 1) = fst (snd (lanes ! i)) \<and>
   scatter mem ptr lanes (ptr + 3 * int i + 2) = snd (snd (lanes ! i))"
proof (induction mem ptr lanes arbitrary: i rule: scatter.induct)
  case (1 mem ptr)
  then show ?case by simp
next
  case (2 mem ptr r g b lanes)
  show ?case
  proof (cases i)
    case 0
    then show ?thesis by (simp add: scatter_below)
  next
    case (Suc j)
    with 2 have j: "j < length lanes" by simp
    define mem' where "mem' = mem(ptr := r, ptr + 1 := g, ptr + 2 := b)"
    have unroll: "scatter mem ptr ((r, g, b) # lanes) = scatter mem' (ptr + 3) lanes"
      by (simp add: mem'_def)
    have shift: "ptr + 3 * int i = ptr + 3 + 3 * int j"
      using Suc by simp
    have lane: "((r, g, b) # lanes) ! i = lanes ! j"
      using Suc by simp
    show ?thesis
      unfolding unroll shift lane using "2.IH"[OF j, folded mem'_def] .
  qed
qed

lemma render_batch_lane:
  assumes "i < N"
  shows "render_batch shader N b mem (b_ptr b + 3 * int i) =
           quantize (fst (shader (real_of_int (b_x b) + real i, b_fragY b))) \<and>
         render_batch shader N b mem (b_ptr b + 3 * int i + 1) =
           quantize (fst (snd (shader (real_of_int (b_x b) + real i, b_fragY b)))) \<and>
         render_batch shader N b mem (b_ptr b + 3 * int i + 2) =
           quantize (fst (snd (snd (shader (real_of_int (b_x b) + real i, b_fragY b)))))"
  using assms
    scatter_lane[of i "map (\<lambda>fc. quantize_rgb (shader fc)) (frag_coords N (b_x b) (b_fragY b))"
      mem "b_ptr b"]
  by (simp add: render_batch_def frag_coords_def quantize_rgb_def split: prod.splits)

text \<open>
  Claim C2 says that the stored byte is \<open>truncate (clamp c 0 1 * 255 + 0.5)\<close>,
  rounding to the nearest level.  The bytes are stored in the order R, G, B
  (\<open>render_batch_lane\<close>), but the worker multiplies by \<open>255 + 0.5\<close> instead
  (\<open>quantize_floor\<close>): for the channel value 0.5 it stores 127, where the formula of
  the claim gives 128.
\<close>

theorem quantize_half:
  "quantize (1 / 2) = 127 \<and>
   (ucast (to_uint (clamp_f (1 / 2) 0 1 * 255 + 1 / 2)) :: 8 word) = 128"
  by (simp add: quantize_def clamp_f_def to_uint_def truncate_f_def)

subsection \<open>The batches of a row\<close>

lemma row_loop_stop: "\<not> (x < w \<and> 0 < N) \<Longrightarrow> row_loop N w x ptr = []"
  by (subst row_loop.simps) simp

lemma row_loop_step:
  "x < w \<Longrightarrow> 0 < N \<Longrightarrow>
   row_loop N w x ptr =
     (min x (w - int N), ptr - 3 * (x - min x (w - int N))) #
     row_loop N w (min x (w - int N) + int N) (ptr - 3 * (x - min x (w - int N)) + 3 * int N)"
  by (subst row_loop.simps) (simp add: Let_def min_def)

lemma row_loop_cases [case_names stop step]:
  assumes "\<And>x ptr. \<not> (x < w \<and> 0 < N) \<Longrightarrow> P x ptr"
    and "\<And>x ptr. x < w \<Longrightarrow> 0 < N \<Longrightarrow>
           P (min x (w - int N) + int N) (ptr - 3 * (x - min x (w - int N)) + 3 * int N) \<Longrightarrow>
           P x ptr"
  shows "P x ptr"
proof (induction "nat (w - x)" arbitrary: x ptr rule: less_induct)
  case (less x ptr)
  show ?case
  proof (cases "x < w \<and> 0 < N")
    case False
    then show ?thesis by (rule assms(1))
  next
    case True
    then have "x < min x (w - int N) + int N"
      by linarith
    with True have "nat (w - (min x (w - int N) + int N)) < nat (w - x)"
      by linarith
    from less[OF this]
    have "P (min x (w - int N) + int N) (ptr - 3 * (x - min x (w - int N)) + 3 * int N)" .
    with True show ?thesis
      using assms(2)[of x ptr] by blast
  qed
qed

lemma row_loop_lower:
  "(x', p') \<in> set (row_loop N w x ptr) \<Longrightarrow> min x (w - int N) \<le> x'"
proof (induction x ptr rule: row_loop_cases[where w = w and N = N])
  case (stop x ptr)
  then show ?case by (simp add: row_loop_stop)
next
  case (step x ptr)
  from step.prems consider "x' = min x (w - int N)"
    | "(x', p') \<in> set (row_loop N w (min x (w - int N) + int N)
         (ptr - 3 * (x - min x (w - int N)) + 3 * int N))"
    unfolding row_loop_step[OF step.hyps(1,2)] by auto
  then show ?case
  proof cases
    case 1
    then show ?thesis by simp
  next
    case 2
    from step.IH[OF 2] show ?thesis by linarith
  qed
qed

lemma row_loop_starts_increase:
  "sorted_wrt (<) (map fst (row_loop N w x ptr))"
proof (induction x ptr rule: row_loop_cases[where w = w and N = N])
  case (stop x ptr)
  then show ?case by (simp add: row_loop_stop)
next
  case (step x ptr)
  let ?a = "min x (w - int N)"
  let ?rest = "row_loop N w (?a + int N) (ptr - 3 * (x - ?a) + 3 * int N)"
  have "?a < x'" if "(x', p') \<in> set ?rest" for x' p'
  proof -
    from that have "?a + int N < w"
      using row_loop_stop[of "?a + int N" w N] by fastforce
    with row_loop_lower[OF that] step.hyps(2) show ?thesis by linarith
  qed
  with step.IH show ?case
    unfolding row_loop_step[OF step.hyps(1,2)] by auto
qed

lemma row_loop_in_row:
  "(x', p') \<in> set (row_loop N w x ptr) \<Longrightarrow> int N \<le> w \<Longrightarrow> 0 \<le> x \<Longrightarrow>
   0 \<le> x' \<and> x' + int N \<le> w"
proof (induction x ptr rule: row_loop_cases[where w = w and N = N])
  case (stop x ptr)
  then show ?case by (simp add: row_loop_stop)
next
  case (step x ptr)
  from step.prems(1) step.hyps show ?case
    unfolding row_loop_step[OF step.hyps(1,2)]
    using step.IH step.prems(2,3) by (auto simp: min_def split: if_splits)
qed

lemma row_loop_ptr:
  "(x', p') \<in> set (row_loop N w x ptr) \<Longrightarrow> p' - 3 * x' = ptr - 3 * x"
proof (induction x ptr rule: row_loop_cases[where w = w and N = N])
  case (stop x ptr)
  then show ?case by (simp add: row_loop_stop)
next
  case (step x ptr)
  from step.prems(1) show ?case
    unfolding row_loop_step[OF step.hyps(1,2)]
    using step.IH by (auto simp: min_def split: if_splits)
qed

lemma row_loop_covers:
  "0 < N \<Longrightarrow> x \<le> p \<Longrightarrow> p < w \<Longrightarrow>
   \<exists>b \<in> set (row_loop N w x ptr). fst b \<le> p \<and> p < fst b + int N"
proof (induction x ptr rule: row_loop_cases[where w = w and N = N])
  case (stop x ptr)
  then show ?case by simp
next
  case (step x ptr)
  let ?x1 = "min x (w - int N)"
  let ?p1 = "ptr - 3 * (x - ?x1)"
  note unroll = row_loop_step[OF step.hyps(1,2), of ptr]
  show ?case
  proof (cases "p < ?x1 + int N")
    case True
    have "?x1 \<le> p" using step.prems(2) by simp
    with True have "fst (?x1, ?p1) \<le> p \<and> p < fst (?x1, ?p1) + int N" by simp
    then show ?thesis unfolding unroll by (intro bexI[of _ "(?x1, ?p1)"]) simp_all
  next
    case False
    then have "?x1 + int N \<le> p" by simp
    from step.IH[OF step.prems(1) this step.prems(3)]
    obtain b where "b \<in> set (row_loop N w (?x1 + int N) (?p1 + 3 * int N))"
      and "fst b \<le> p \<and> p < fst b + int N" by blast
    then show ?thesis unfolding unroll by (intro bexI[of _ b]) simp_all
  qed
qed

text \<open>
  In a row at least as wide as a batch, every batch lies in the row and is stored at
  its own pixels, every pixel of the row is in a batch, and the starts of the batches
  increase, so that two batches share at most \<open>N - 1\<close> pixels.
\<close>

lemma row_loop_wide_row:
  assumes "0 < N" and "int N \<le> w"
  shows "(\<forall>(x, ptr) \<in> set (row_loop N w 0 base).
            0 \<le> x \<and> x + int N \<le> w \<and> ptr = base + 3 * x) \<and>
         (\<forall>p. 0 \<le> p \<and> p < w \<longrightarrow>
            (\<exists>(x, ptr) \<in> set (row_loop N w 0 base). x \<le> p \<and> p < x + int N)) \<and>
         sorted_wrt (<) (map fst (row_loop N w 0 base))"
proof (intro conjI allI impI)
  show "\<forall>(x, ptr) \<in> set (row_loop N w 0 base). 0 \<le> x \<and> x + int N \<le> w \<and> ptr = base + 3 * x"
    using row_loop_in_row[of _ _ N w 0 base] row_loop_ptr[of _ _ N w 0 base] assms
    by fastforce
next
  fix p assume "0 \<le> p \<and> p < w"
  with row_loop_covers[of N 0 p w base] assms(1)
  show "\<exists>(x, ptr) \<in> set (row_loop N w 0 base). x \<le> p \<and> p < x + int N"
    by (auto simp: case_prod_beta)
next
  show "sorted_wrt (<) (map fst (row_loop N w 0 base))"
    by (rule row_loop_starts_increase)
qed

text \<open>
  Claim C4 says that for every width \<open>w\<close> and lane count \<open>N\<close> the start of each batch
  satisfies \<open>0 \<le> x\<close> and \<open>x + N \<le> w\<close>.  The loop has no case for a row narrower than
  one batch: with \<open>w = 2\<close> and \<open>N = 4\<close>, \<^verbatim>\<open>limitX\<close> is \<open>- 2\<close>, the clamp moves the only
  batch to \<open>x = - 2\<close> and \<^verbatim>\<open>ptr\<close> six bytes before the row, and in the first row of a
  surface the worker stores a colour six bytes before \<^verbatim>\<open>bmp->pixels\<close>.
\<close>

theorem row_loop_narrow_row:
  "row_loop 4 2 0 0 = [(- 2, - 6)] \<and>
   frame_batches (\<lambda>y. False) 0 1 \<lparr>bmp_w = 2, bmp_h = 1, bmp_pitch = 8\<rparr> 4 =
     [\<lparr>b_row = 0, b_fragY = 0, b_x = - 2, b_ptr = - 6\<rparr>] \<and>
   render_frame shader (\<lambda>y. False) 0 1 \<lparr>bmp_w = 2, bmp_h = 1, bmp_pitch = 8\<rparr> 4 mem (- 6) =
     quantize (fst (shader (- 2, 0)))"
proof -
  have row: "row_loop 4 2 0 0 = [(- 2, - 6)]"
    by (simp add: row_loop.simps Let_def)
  have frame: "frame_batches (\<lambda>y. False) 0 1 \<lparr>bmp_w = 2, bmp_h = 1, bmp_pitch = 8\<rparr> 4 =
     [\<lparr>b_row = 0, b_fragY = 0, b_x = - 2, b_ptr = - 6\<rparr>]"
    by (simp add: frame_batches_def row_batches_def scan_rows.simps row)
  have "render_frame shader (\<lambda>y. False) 0 1 \<lparr>bmp_w = 2, bmp_h = 1, bmp_pitch = 8\<rparr> 4 mem (- 6) =
     quantize (fst (shader (- 2, 0)))"
    unfolding render_frame_def frame
    using render_batch_lane[of 0 4 shader "\<lparr>b_row = 0, b_fragY = 0, b_x = - 2, b_ptr = - 6\<rparr>" mem]
    by simp
  with row frame show ?thesis by (intro conjI)
qed

subsection \<open>The rows of a frame\<close>










section \<open>The command line and the exit code\<close>

lemmas parse_simps = parse_resolution_def read_int_def digit_val_def

lemma parse_64x32: "parse_resolution ''64x32'' = Some (64, 32)"
  by (simp add: parse_simps)

lemma parse_abc: "parse_resolution ''abc'' = None"
  by (simp add: parse_simps)

lemma parse_0x10: "parse_resolution ''0x10'' = Some (0, 10)"
  by (simp add: parse_simps)

text \<open>Before the resolution is read, main has called nothing but \<^verbatim>\<open>IMG_Init\<close>.\<close>

lemma img_init_calls: "fst (img_init env) = [] \<or> fst (img_init env) = [IMG_Init]"
  by (simp add: img_init_def)

lemma main_rejects:
  "initial_resolution argv = Inl msg \<Longrightarrow>
   main argv env =
     Some \<lparr>exit_code = 1, cerr = snd (img_init env) @ [msg], sdl_calls = fst (img_init env)\<rparr>"
  by (simp add: main_def split: prod.splits)

lemma main_catches:
  "initial_resolution argv = Inr (w, h) \<Longrightarrow> try_block env w h = (calls, Some (Inl e)) \<Longrightarrow>
   main argv env =
     Some \<lparr>exit_code = 0, cerr = snd (img_init env) @ [error_message e],
           sdl_calls = fst (img_init env) @ calls @ [SDL_Quit]\<rparr>"
  by (simp add: main_def split: prod.splits)

lemma main_exit_code:
  "main argv env = Some r \<Longrightarrow>
   (exit_code r = 0 \<and> (\<exists>w h. initial_resolution argv = Inr (w, h))) \<or>
   (exit_code r = 1 \<and>
    (\<exists>msg. initial_resolution argv = Inl msg \<and> cerr r = snd (img_init env) @ [msg] \<and>
       sdl_calls r = fst (img_init env)))"
  by (auto simp: main_def split: sum.splits prod.splits option.splits)

lemma initial_resolution_Inl:
  "initial_resolution argv = Inl msg \<Longrightarrow>
   length argv = 2 \<and>
   (parse_resolution (argv ! 1) = None \<and> msg = Unable_to_parse \<or>
    (\<exists>x y. parse_resolution (argv ! 1) = Some (x, y) \<and> (x \<le> 0 \<or> y < 0) \<and>
       msg = Invalid_resolution x y))"
  by (auto simp: initial_resolution_def split: option.splits if_splits)

text \<open>
  Claim C5.  With one argument \<open>a\<close>: when \<open>a\<close> does not parse, or parses to a width
  \<open>x \<le> 0\<close> or a height \<open>y < 0\<close>, main writes the error and returns 1, and of SDL
  nothing has been started (the only call made is \<^verbatim>\<open>IMG_Init\<close>, in a build with
  SDL_image); otherwise \<open>(x, y)\<close> is the initial resolution.  "64x32" gives 64 by 32,
  the size of the screen and of the surface main then creates; "abc" and "0x10" give
  exit code 1; with no argument the initial resolution is 128 by 128.
\<close>

theorem resolution_argument:
  "(parse_resolution a = None \<longrightarrow>
      main [prog, a] env =
        Some \<lparr>exit_code = 1, cerr = snd (img_init env) @ [Unable_to_parse],
              sdl_calls = fst (img_init env)\<rparr>) \<and>
   (parse_resolution a = Some (x, y) \<and> (x \<le> 0 \<or> y < 0) \<longrightarrow>
      main [prog, a] env =
        Some \<lparr>exit_code = 1, cerr = snd (img_init env) @ [Invalid_resolution x y],
              sdl_calls = fst (img_init env)\<rparr>) \<and>
   (fst (img_init env) = [] \<or> fst (img_init env) = [IMG_Init]) \<and>
   (parse_resolution a = Some (x, y) \<and> 0 < x \<and> 0 \<le> y \<longrightarrow>
      initial_resolution [prog, a] = Inr (x, y)) \<and>
   initial_resolution [prog, ''64x32''] = Inr (64, 32) \<and>
   (0 \<le> sdl_init_result env \<and> video_mode_ok env \<and> rgb_surface_ok env \<and>
    display_loop env = Loop_quit \<longrightarrow>
      main [prog, ''64x32''] env =
        Some \<lparr>exit_code = 0, cerr = snd (img_init env),
              sdl_calls = fst (img_init env) @
                [SDL_Init, SDL_EnableKeyRepeat, SDL_WM_SetCaption, SDL_SetVideoMode 64 32,
                 SDL_CreateRGBSurface 64 32, SDL_CreateThread, SDL_WaitThread, SDL_Quit]\<rparr>) \<and>
   main [prog, ''abc''] env =
     Some \<lparr>exit_code = 1, cerr = snd (img_init env) @ [Unable_to_parse],
           sdl_calls = fst (img_init env)\<rparr> \<and>
   main [prog, ''0x10''] env =
     Some \<lparr>exit_code = 1, cerr = snd (img_init env) @ [Invalid_resolution 0 10],
           sdl_calls = fst (img_init env)\<rparr> \<and>
   initial_resolution [prog] = Inr (128, 128)"
proof -
  have unparsed: "parse_resolution a = None \<longrightarrow>
      main [prog, a] env =
        Some \<lparr>exit_code = 1, cerr = snd (img_init env) @ [Unable_to_parse],
              sdl_calls = fst (img_init env)\<rparr>"
    by (auto intro!: main_rejects simp: initial_resolution_def)
  have invalid: "parse_resolution a = Some (x, y) \<and> (x \<le> 0 \<or> y < 0) \<longrightarrow>
      main [prog, a] env =
        Some \<lparr>exit_code = 1, cerr = snd (img_init env) @ [Invalid_resolution x y],
              sdl_calls = fst (img_init env)\<rparr>"
    by (auto intro!: main_rejects simp: initial_resolution_def)
  have valid: "parse_resolution a = Some (x, y) \<and> 0 < x \<and> 0 \<le> y \<longrightarrow>
      initial_resolution [prog, a] = Inr (x, y)"
    by (simp add: initial_resolution_def)
  have res: "initial_resolution [prog, ''64x32''] = Inr (64, 32)"
    by (simp add: initial_resolution_def parse_64x32)
  have run: "0 \<le> sdl_init_result env \<and> video_mode_ok env \<and> rgb_surface_ok env \<and>
    display_loop env = Loop_quit \<longrightarrow>
      main [prog, ''64x32''] env =
        Some \<lparr>exit_code = 0, cerr = snd (img_init env),
              sdl_calls = fst (img_init env) @
                [SDL_Init, SDL_EnableKeyRepeat, SDL_WM_SetCaption, SDL_SetVideoMode 64 32,
                 SDL_CreateRGBSurface 64 32, SDL_CreateThread, SDL_WaitThread, SDL_Quit]\<rparr>"
    by (simp add: main_def res try_block_def split: prod.splits)
  have abc: "main [prog, ''abc''] env =
      Some \<lparr>exit_code = 1, cerr = snd (img_init env) @ [Unable_to_parse],
            sdl_calls = fst (img_init env)\<rparr>"
    by (intro main_rejects) (simp add: initial_resolution_def parse_abc)
  have zero: "main [prog, ''0x10''] env =
      Some \<lparr>exit_code = 1, cerr = snd (img_init env) @ [Invalid_resolution 0 10],
            sdl_calls = fst (img_init env)\<rparr>"
    by (intro main_rejects) (simp add: initial_resolution_def parse_0x10)
  have none: "initial_resolution [prog] = Inr (128, 128)"
    by (simp add: initial_resolution_def)
  from unparsed invalid img_init_calls[of env] valid res run abc zero none show ?thesis
    by (intro conjI)
qed

theorem resolution_argument_witness:
  "parse_resolution ''x64'' = None \<and>
   main [''swizzle'', ''x64'']
     \<lparr>sdlimage_found = True, img_init_ok = True, sdl_init_result = 0, video_mode_ok = True,
      rgb_surface_ok = True, display_loop = Loop_quit\<rparr> =
     Some \<lparr>exit_code = 1, cerr = [Unable_to_parse], sdl_calls = [IMG_Init]\<rparr> \<and>
   parse_resolution ''64x-1'' = Some (64, - 1) \<and>
   main [''swizzle'', ''64x-1'']
     \<lparr>sdlimage_found = True, img_init_ok = True, sdl_init_result = 0, video_mode_ok = True,
      rgb_surface_ok = True, display_loop = Loop_quit\<rparr> =
     Some \<lparr>exit_code = 1, cerr = [Invalid_resolution 64 (- 1)], sdl_calls = [IMG_Init]\<rparr> \<and>
   parse_resolution ''320,200'' = Some (320, 200) \<and>
   initial_resolution [''swizzle'', ''320,200''] = Inr (320, 200) \<and>
   main [''swizzle'', ''64x32'']
     \<lparr>sdlimage_found = True, img_init_ok = True, sdl_init_result = 0, video_mode_ok = True,
      rgb_surface_ok = True, display_loop = Loop_quit\<rparr> =
     Some \<lparr>exit_code = 0, cerr = [],
           sdl_calls =
             [IMG_Init, SDL_Init, SDL_EnableKeyRepeat, SDL_WM_SetCaption, SDL_SetVideoMode 64 32,
              SDL_CreateRGBSurface 64 32, SDL_CreateThread, SDL_WaitThread, SDL_Quit]\<rparr>"
proof -
  let ?env = "\<lparr>sdlimage_found = True, img_init_ok = True, sdl_init_result = 0,
      video_mode_ok = True, rgb_surface_ok = True, display_loop = Loop_quit\<rparr>"
  have img: "img_init ?env = ([IMG_Init], [])"
    by (simp add: img_init_def)
  have p1: "parse_resolution ''x64'' = None"
    by (simp add: parse_simps)
  have p2: "parse_resolution ''64x-1'' = Some (64, - 1)"
    by (simp add: parse_simps)
  have p3: "parse_resolution ''320,200'' = Some (320, 200)"
    by (simp add: parse_simps)
  have ok: "0 \<le> sdl_init_result ?env \<and> video_mode_ok ?env \<and> rgb_surface_ok ?env \<and>
      display_loop ?env = Loop_quit"
    by simp
  from resolution_argument[of "''x64''" "''swizzle''" ?env] p1
  have r1: "main [''swizzle'', ''x64''] ?env =
      Some \<lparr>exit_code = 1, cerr = [Unable_to_parse], sdl_calls = [IMG_Init]\<rparr>"
    unfolding img by simp
  from resolution_argument[of "''64x-1''" "''swizzle''" ?env 64 "- 1"] p2
  have r2: "main [''swizzle'', ''64x-1''] ?env =
      Some \<lparr>exit_code = 1, cerr = [Invalid_resolution 64 (- 1)], sdl_calls = [IMG_Init]\<rparr>"
    unfolding img by simp
  from resolution_argument[of "''320,200''" "''swizzle''" ?env 320 200] p3
  have r3: "initial_resolution [''swizzle'', ''320,200''] = Inr (320, 200)"
    by simp
  from resolution_argument[of "''x64''" "''swizzle''" ?env] ok
  have r4: "main [''swizzle'', ''64x32''] ?env =
      Some \<lparr>exit_code = 0, cerr = [],
            sdl_calls =
              [IMG_Init, SDL_Init, SDL_EnableKeyRepeat, SDL_WM_SetCaption, SDL_SetVideoMode 64 32,
               SDL_CreateRGBSurface 64 32, SDL_CreateThread, SDL_WaitThread, SDL_Quit]\<rparr>"
    unfolding img by simp
  from p1 r1 p2 r2 p3 r3 r4 show ?thesis
    by (intro conjI)
qed

text \<open>
  Claim C10.  When the \<^verbatim>\<open>try\<close> block of main ends by an exception (SDL cannot be
  initialised, the screen or the surface cannot be created, or anything else is
  thrown while the display loop runs), main writes the message of the exception to
  \<^verbatim>\<open>cerr\<close>, calls \<^verbatim>\<open>SDL_Quit\<close> and returns 0.  Whenever main returns a code other than
  0, the code is 1, the \<^verbatim>\<open>try\<close> block was not entered, and the single argument did not
  parse or gave a width \<open>\<le> 0\<close> or a height \<open>< 0\<close>.
\<close>

theorem caught_error_exits_with_zero:
  "(initial_resolution argv = Inr (w, h) \<and> try_block env w h = (calls, Some (Inl e)) \<longrightarrow>
      main argv env =
        Some \<lparr>exit_code = 0, cerr = snd (img_init env) @ [error_message e],
              sdl_calls = fst (img_init env) @ calls @ [SDL_Quit]\<rparr>) \<and>
   (sdl_init_result env < 0 \<longrightarrow>
      try_block env w h = ([SDL_Init], Some (Inl (Runtime_error ''Unable to init SDL'')))) \<and>
   (0 \<le> sdl_init_result env \<and> \<not> video_mode_ok env \<longrightarrow>
      try_block env w h =
        ([SDL_Init, SDL_EnableKeyRepeat, SDL_WM_SetCaption, SDL_SetVideoMode w h],
         Some (Inl (Runtime_error ''Unable to set video mode'')))) \<and>
   (0 \<le> sdl_init_result env \<and> video_mode_ok env \<and> \<not> rgb_surface_ok env \<longrightarrow>
      try_block env w h =
        ([SDL_Init, SDL_EnableKeyRepeat, SDL_WM_SetCaption, SDL_SetVideoMode w h,
          SDL_CreateRGBSurface w h],
         Some (Inl (Runtime_error ''Unable to create surface'')))) \<and>
   (0 \<le> sdl_init_result env \<and> video_mode_ok env \<and> rgb_surface_ok env \<and>
    display_loop env = Loop_throws e \<longrightarrow>
      try_block env w h =
        ([SDL_Init, SDL_EnableKeyRepeat, SDL_WM_SetCaption, SDL_SetVideoMode w h,
          SDL_CreateRGBSurface w h, SDL_CreateThread],
         Some (Inl e))) \<and>
   (main argv env = Some r \<and> exit_code r \<noteq> 0 \<longrightarrow>
      exit_code r = 1 \<and> sdl_calls r = fst (img_init env) \<and> length argv = 2 \<and>
      (parse_resolution (argv ! 1) = None \<or>
       (\<exists>x y. parse_resolution (argv ! 1) = Some (x, y) \<and> (x \<le> 0 \<or> y < 0))))"
proof -
  have caught: "initial_resolution argv = Inr (w, h) \<and>
      try_block env w h = (calls, Some (Inl e)) \<longrightarrow>
      main argv env =
        Some \<lparr>exit_code = 0, cerr = snd (img_init env) @ [error_message e],
              sdl_calls = fst (img_init env) @ calls @ [SDL_Quit]\<rparr>"
    by (simp add: main_catches)
  have init: "sdl_init_result env < 0 \<longrightarrow>
      try_block env w h = ([SDL_Init], Some (Inl (Runtime_error ''Unable to init SDL'')))"
    by (simp add: try_block_def)
  have video: "0 \<le> sdl_init_result env \<and> \<not> video_mode_ok env \<longrightarrow>
      try_block env w h =
        ([SDL_Init, SDL_EnableKeyRepeat, SDL_WM_SetCaption, SDL_SetVideoMode w h],
         Some (Inl (Runtime_error ''Unable to set video mode'')))"
    by (simp add: try_block_def)
  have surface: "0 \<le> sdl_init_result env \<and> video_mode_ok env \<and> \<not> rgb_surface_ok env \<longrightarrow>
      try_block env w h =
        ([SDL_Init, SDL_EnableKeyRepeat, SDL_WM_SetCaption, SDL_SetVideoMode w h,
          SDL_CreateRGBSurface w h],
         Some (Inl (Runtime_error ''Unable to create surface'')))"
    by (simp add: try_block_def)
  have loop: "0 \<le> sdl_init_result env \<and> video_mode_ok env \<and> rgb_surface_ok env \<and>
      display_loop env = Loop_throws e \<longrightarrow>
      try_block env w h =
        ([SDL_Init, SDL_EnableKeyRepeat, SDL_WM_SetCaption, SDL_SetVideoMode w h,
          SDL_CreateRGBSurface w h, SDL_CreateThread],
         Some (Inl e))"
    by (simp add: try_block_def)
  have nonzero: "main argv env = Some r \<and> exit_code r \<noteq> 0 \<longrightarrow>
      exit_code r = 1 \<and> sdl_calls r = fst (img_init env) \<and> length argv = 2 \<and>
      (parse_resolution (argv ! 1) = None \<or>
       (\<exists>x y. parse_resolution (argv ! 1) = Some (x, y) \<and> (x \<le> 0 \<or> y < 0)))"
  proof
    assume r: "main argv env = Some r \<and> exit_code r \<noteq> 0"
    with main_exit_code[of argv env r] obtain msg where
      m: "exit_code r = 1" "initial_resolution argv = Inl msg"
         "sdl_calls r = fst (img_init env)"
      by auto
    from initial_resolution_Inl[OF m(2)] m
    show "exit_code r = 1 \<and> sdl_calls r = fst (img_init env) \<and> length argv = 2 \<and>
        (parse_resolution (argv ! 1) = None \<or>
         (\<exists>x y. parse_resolution (argv ! 1) = Some (x, y) \<and> (x \<le> 0 \<or> y < 0)))"
      by auto
  qed
  from caught init video surface loop nonzero show ?thesis
    by (intro conjI)
qed

theorem caught_error_exits_with_zero_witness:
  "main [''swizzle''] (failing_env (- 1) True True Loop_quit) =
     Some \<lparr>exit_code = 0, cerr = [Error ''Unable to init SDL''],
           sdl_calls = [SDL_Init, SDL_Quit]\<rparr> \<and>
   main [''swizzle''] (failing_env 0 False True Loop_quit) =
     Some \<lparr>exit_code = 0, cerr = [Error ''Unable to set video mode''],
           sdl_calls = [SDL_Init, SDL_EnableKeyRepeat, SDL_WM_SetCaption,
                        SDL_SetVideoMode 128 128, SDL_Quit]\<rparr> \<and>
   main [''swizzle''] (failing_env 0 True False Loop_quit) =
     Some \<lparr>exit_code = 0, cerr = [Error ''Unable to create surface''],
           sdl_calls = [SDL_Init, SDL_EnableKeyRepeat, SDL_WM_SetCaption,
                        SDL_SetVideoMode 128 128, SDL_CreateRGBSurface 128 128, SDL_Quit]\<rparr> \<and>
   main [''swizzle''] (failing_env 0 True True (Loop_throws Unknown_exception)) =
     Some \<lparr>exit_code = 0, cerr = [Error ''Unknown error''],
           sdl_calls = [SDL_Init, SDL_EnableKeyRepeat, SDL_WM_SetCaption,
                        SDL_SetVideoMode 128 128, SDL_CreateRGBSurface 128 128,
                        SDL_CreateThread, SDL_Quit]\<rparr> \<and>
   main [''swizzle'', ''0x10''] (failing_env 0 True True Loop_quit) =
     Some \<lparr>exit_code = 1, cerr = [Invalid_resolution 0 10], sdl_calls = []\<rparr> \<and>
   (parse_resolution ([''swizzle'', ''0x10''] ! 1) = None \<or>
    (\<exists>x y. parse_resolution ([''swizzle'', ''0x10''] ! 1) = Some (x, y) \<and> (x \<le> 0 \<or> y < 0)))"
proof -
  let ?argv = "[''swizzle'']"
  have img: "img_init (failing_env init video surface loop) = ([], [])"
    for init video surface loop
    by (simp add: img_init_def failing_env_def)
  have res: "initial_resolution ?argv = Inr (128, 128)"
    by (simp add: initial_resolution_def)
  note fields = failing_env_def
  have e1: "main ?argv (failing_env (- 1) True True Loop_quit) =
      Some \<lparr>exit_code = 0, cerr = [Error ''Unable to init SDL''],
            sdl_calls = [SDL_Init, SDL_Quit]\<rparr>"
  proof -
    let ?env = "failing_env (- 1) True True Loop_quit"
    note inst = caught_error_exits_with_zero[of ?argv 128 128 ?env "[SDL_Init]"
        "Runtime_error ''Unable to init SDL''"]
    have "sdl_init_result ?env < 0" by (simp add: fields)
    with inst have "try_block ?env 128 128 =
        ([SDL_Init], Some (Inl (Runtime_error ''Unable to init SDL'')))" by blast
    with inst res show ?thesis unfolding img by simp
  qed
  have e2: "main ?argv (failing_env 0 False True Loop_quit) =
      Some \<lparr>exit_code = 0, cerr = [Error ''Unable to set video mode''],
            sdl_calls = [SDL_Init, SDL_EnableKeyRepeat, SDL_WM_SetCaption,
                         SDL_SetVideoMode 128 128, SDL_Quit]\<rparr>"
  proof -
    let ?env = "failing_env 0 False True Loop_quit"
    note inst = caught_error_exits_with_zero[of ?argv 128 128 ?env
        "[SDL_Init, SDL_EnableKeyRepeat, SDL_WM_SetCaption, SDL_SetVideoMode 128 128]"
        "Runtime_error ''Unable to set video mode''"]
    have "0 \<le> sdl_init_result ?env \<and> \<not> video_mode_ok ?env" by (simp add: fields)
    with inst have "try_block ?env 128 128 =
        ([SDL_Init, SDL_EnableKeyRepeat, SDL_WM_SetCaption, SDL_SetVideoMode 128 128],
         Some (Inl (Runtime_error ''Unable to set video mode'')))" by blast
    with inst res show ?thesis unfolding img by simp
  qed
  have e3: "main ?argv (failing_env 0 True False Loop_quit) =
      Some \<lparr>exit_code = 0, cerr = [Error ''Unable to create surface''],
            sdl_calls = [SDL_Init, SDL_EnableKeyRepeat, SDL_WM_SetCaption,
                         SDL_SetVideoMode 128 128, SDL_CreateRGBSurface 128 128, SDL_Quit]\<rparr>"
  proof -
    let ?env = "failing_env 0 True False Loop_quit"
    note inst = caught_error_exits_with_zero[of ?argv 128 128 ?env
        "[SDL_Init, SDL_EnableKeyRepeat, SDL_WM_SetCaption, SDL_SetVideoMode 128 128,
          SDL_CreateRGBSurface 128 128]"
        "Runtime_error ''Unable to create surface''"]
    have "0 \<le> sdl_init_result ?env \<and> video_mode_ok ?env \<and> \<not> rgb_surface_ok ?env"
      by (simp add: fields)
    with inst have "try_block ?env 128 128 =
        ([SDL_Init, SDL_EnableKeyRepeat, SDL_WM_SetCaption, SDL_SetVideoMode 128 128,
          SDL_CreateRGBSurface 128 128],
         Some (Inl (Runtime_error ''Unable to create surface'')))" by blast
    with inst res show ?thesis unfolding img by simp
  qed
  have e4: "main ?argv (failing_env 0 True True (Loop_throws Unknown_exception)) =
      Some \<lparr>exit_code = 0, cerr = [Error ''Unknown error''],
            sdl_calls = [SDL_Init, SDL_EnableKeyRepeat, SDL_WM_SetCaption,
                         SDL_SetVideoMode 128 128, SDL_CreateRGBSurface 128 128,
                         SDL_CreateThread, SDL_Quit]\<rparr>"
  proof -
    let ?env = "failing_env 0 True True (Loop_throws Unknown_exception)"
    note inst = caught_error_exits_with_zero[of ?argv 128 128 ?env
        "[SDL_Init, SDL_EnableKeyRepeat, SDL_WM_SetCaption, SDL_SetVideoMode 128 128,
          SDL_CreateRGBSurface 128 128, SDL_CreateThread]"
        Unknown_exception]
    have "0 \<le> sdl_init_result ?env \<and> video_mode_ok ?env \<and> rgb_surface_ok ?env \<and>
        display_loop ?env = Loop_throws Unknown_exception"
      by (simp add: fields)
    with inst have "try_block ?env 128 128 =
        ([SDL_Init, SDL_EnableKeyRepeat, SDL_WM_SetCaption, SDL_SetVideoMode 128 128,
          SDL_CreateRGBSurface 128 128, SDL_CreateThread],
         Some (Inl Unknown_exception))" by blast
    with inst res show ?thesis unfolding img by simp
  qed
  let ?bad = "[''swizzle'', ''0x10'']"
  let ?env = "failing_env 0 True True Loop_quit"
  let ?r = "\<lparr>exit_code = 1, cerr = [Invalid_resolution 0 10], sdl_calls = []\<rparr>"
  have e5: "main ?bad ?env = Some ?r"
    using main_rejects[of ?bad "Invalid_resolution 0 10" ?env]
    unfolding img by (simp add: initial_resolution_def parse_0x10)
  have "exit_code ?r \<noteq> 0"
    by simp
  with e5 caught_error_exits_with_zero[where argv = ?bad and env = ?env and r = ?r]
  have e6: "parse_resolution (?bad ! 1) = None \<or>
      (\<exists>x y. parse_resolution (?bad ! 1) = Some (x, y) \<and> (x \<le> 0 \<or> y < 0))"
    by blast
  from e1 e2 e3 e4 e5 e6 show ?thesis
    by (intro conjI)
qed

section \<open>The display loop: forced preview\<close>

lemma apply_pending_resize_frame:
  assumes "apply_pending_resize env s = Inr (created, s2)"
  shows "g_frameReady s2 = g_frameReady s \<and> g_cancelDraw s2 = g_cancelDraw s \<and>
         g_quit s2 = g_quit s \<and>
         sandbox_time s2 = sandbox_time s \<and> sandbox_mouse s2 = sandbox_mouse s \<and>
         time s2 = time s \<and> mousePosition s2 = mousePosition s \<and> screen s2 = screen s \<and>
         CondSignal_frameReceived \<notin> set created \<and> BlitSurface \<notin> set created"
  using assms by (auto simp: apply_pending_resize_def split: if_splits)

lemma apply_pending_resize_throws:
  "apply_pending_resize env s = Inl e \<Longrightarrow> pendingResize s \<and> \<not> surface_created env"
  by (auto simp: apply_pending_resize_def split: if_splits)

lemma update_fps_frame:
  "g_frameReady (update_fps env s) = g_frameReady s \<and>
   g_cancelDraw (update_fps env s) = g_cancelDraw s \<and>
   sandbox_time (update_fps env s) = sandbox_time s \<and>
   sandbox_mouse (update_fps env s) = sandbox_mouse s \<and>
   time (update_fps env s) = time s \<and> mousePosition (update_fps env s) = mousePosition s \<and>
   screen (update_fps env s) = screen s"
  by (simp add: update_fps_def)

lemma transfer_skipped:
  "blitNow \<Longrightarrow> \<not> g_frameReady s \<Longrightarrow> transfer blitNow s = ([], s)"
  by (simp add: transfer_def)

lemma transfer_done:
  "\<not> blitNow \<or> g_frameReady s \<Longrightarrow>
   transfer blitNow s =
     ([CondSignal_frameReceived],
      s\<lparr>sandbox_time := time s,
        sandbox_mouse := (fst (mousePosition s) / real_of_int (fst (screen s)),
                          snd (mousePosition s) / real_of_int (snd (screen s))),
        g_cancelDraw := False, g_frameReady := False\<rparr>)"
  by (simp add: transfer_def)

lemma handshake_block_forced:
  assumes "\<not> g_quit s" and "\<not> g_frameReady s"
  shows "handshake_block True env s =
     (case apply_pending_resize env s of
        Inl e \<Rightarrow> Inl e
      | Inr (created, s2) \<Rightarrow> Inr (BlitSurface # created @ [Flip], s2\<lparr>frame := frame s2 + 1\<rparr>))"
proof (cases "apply_pending_resize env s")
  case (Inl e)
  with assms show ?thesis by (simp add: handshake_block_def)
next
  case (Inr p)
  obtain created s2 where p: "p = (created, s2)" by (cases p)
  from apply_pending_resize_frame[OF Inr[unfolded p]] assms
  have "\<not> g_frameReady s2" by simp
  then have "update_fps env s2 = s2" "transfer True s2 = ([], s2)"
    by (simp_all add: update_fps_def transfer_def)
  with assms Inr p show ?thesis
    by (simp add: handshake_block_def flip_def)
qed


lemma handshake_block_blit:
  assumes "handshake_block blitNow env s = Inr (effects, s')" and "BlitSurface \<in> set effects"
  shows "\<exists>s1 created s2.
           s1 = (if \<not> blitNow \<and> \<not> g_frameReady s then s\<lparr>g_frameReady := ready_after_wait env\<rparr> else s) \<and>
           apply_pending_resize env s1 = Inr (created, s2) \<and>
           effects = BlitSurface # created @ fst (transfer blitNow (update_fps env s2)) @ [Flip] \<and>
           s' = (snd (transfer blitNow (update_fps env s2)))\<lparr>frame := frame (snd (transfer blitNow (update_fps env s2))) + 1\<rparr>"
  using assms
  by (auto simp: handshake_block_def Let_def flip_def split: if_splits sum.splits prod.splits)

text \<open>
  Claim C8.  A forced pass (\<^verbatim>\<open>blitNow\<close>, space pressed) that finds no frame ready and
  no quit requested blits the surface and leaves \<^verbatim>\<open>glsl_sandbox::time\<close>,
  \<^verbatim>\<open>glsl_sandbox::mouse\<close>, \<^verbatim>\<open>g_cancelDraw\<close> and \<^verbatim>\<open>g_frameReady\<close> as they were,
  without signalling \<^verbatim>\<open>m_frameReceivedEvent\<close>; it ends by an exception only when a
  pending resize cannot create its surface.  In every pass that blits, the globals
  are transferred, the two flags cleared and the signal raised exactly when the pass
  was not forced or \<^verbatim>\<open>g_frameReady\<close> was set.  (\<open>handshake_block_forced\<close> is the
  whole effect of the forced pass: besides the blit and the flip, a pending resize is
  applied, which replaces \<^verbatim>\<open>g_surface\<close> and sets \<^verbatim>\<open>glsl_sandbox::resolution\<close>.)
\<close>

theorem forced_preview_keeps_handshake_state:
  "(\<not> g_quit s \<and> \<not> g_frameReady s \<longrightarrow>
      (case handshake_block True env s of
         Inl e \<Rightarrow> pendingResize s \<and> \<not> surface_created env
       | Inr (effects, s') \<Rightarrow>
           hd effects = BlitSurface \<and> CondSignal_frameReceived \<notin> set effects \<and>
           sandbox_time s' = sandbox_time s \<and> sandbox_mouse s' = sandbox_mouse s \<and>
           g_cancelDraw s' = g_cancelDraw s \<and> g_frameReady s' = g_frameReady s \<and>
           g_quit s' = g_quit s)) \<and>
   (handshake_block blitNow env s = Inr (effects, s') \<and> BlitSurface \<in> set effects \<longrightarrow>
      (if \<not> blitNow \<or> g_frameReady s
       then CondSignal_frameReceived \<in> set effects \<and> sandbox_time s' = time s \<and>
            sandbox_mouse s' =
              (fst (mousePosition s) / real_of_int (fst (screen s)),
               snd (mousePosition s) / real_of_int (snd (screen s))) \<and>
            \<not> g_cancelDraw s' \<and> \<not> g_frameReady s'
       else CondSignal_frameReceived \<notin> set effects \<and>
            sandbox_time s' = sandbox_time s \<and> sandbox_mouse s' = sandbox_mouse s \<and>
            g_cancelDraw s' = g_cancelDraw s \<and> g_frameReady s' = g_frameReady s))"
proof -
  have forced: "\<not> g_quit s \<and> \<not> g_frameReady s \<longrightarrow>
      (case handshake_block True env s of
         Inl e \<Rightarrow> pendingResize s \<and> \<not> surface_created env
       | Inr (effects, s') \<Rightarrow>
           hd effects = BlitSurface \<and> CondSignal_frameReceived \<notin> set effects \<and>
           sandbox_time s' = sandbox_time s \<and> sandbox_mouse s' = sandbox_mouse s \<and>
           g_cancelDraw s' = g_cancelDraw s \<and> g_frameReady s' = g_frameReady s \<and>
           g_quit s' = g_quit s)"
  proof
    assume a: "\<not> g_quit s \<and> \<not> g_frameReady s"
    show "case handshake_block True env s of
         Inl e \<Rightarrow> pendingResize s \<and> \<not> surface_created env
       | Inr (effects, s') \<Rightarrow>
           hd effects = BlitSurface \<and> CondSignal_frameReceived \<notin> set effects \<and>
           sandbox_time s' = sandbox_time s \<and> sandbox_mouse s' = sandbox_mouse s \<and>
           g_cancelDraw s' = g_cancelDraw s \<and> g_frameReady s' = g_frameReady s \<and>
           g_quit s' = g_quit s"
    proof (cases "apply_pending_resize env s")
      case (Inl e)
      with a apply_pending_resize_throws[OF Inl] show ?thesis
        by (simp add: handshake_block_forced)
    next
      case (Inr p)
      obtain created s2 where p: "p = (created, s2)" by (cases p)
      from apply_pending_resize_frame[OF Inr[unfolded p]] a Inr p show ?thesis
        by (simp add: handshake_block_forced)
    qed
  qed
  have general: "handshake_block blitNow env s = Inr (effects, s') \<and> BlitSurface \<in> set effects \<longrightarrow>
      (if \<not> blitNow \<or> g_frameReady s
       then CondSignal_frameReceived \<in> set effects \<and> sandbox_time s' = time s \<and>
            sandbox_mouse s' =
              (fst (mousePosition s) / real_of_int (fst (screen s)),
               snd (mousePosition s) / real_of_int (snd (screen s))) \<and>
            \<not> g_cancelDraw s' \<and> \<not> g_frameReady s'
       else CondSignal_frameReceived \<notin> set effects \<and>
            sandbox_time s' = sandbox_time s \<and> sandbox_mouse s' = sandbox_mouse s \<and>
            g_cancelDraw s' = g_cancelDraw s \<and> g_frameReady s' = g_frameReady s)"
  proof
    assume a: "handshake_block blitNow env s = Inr (effects, s') \<and> BlitSurface \<in> set effects"
    define s1 where
      "s1 = (if \<not> blitNow \<and> \<not> g_frameReady s then s\<lparr>g_frameReady := ready_after_wait env\<rparr> else s)"
    from a handshake_block_blit[of blitNow env s effects s'] obtain created s2 where
      r: "apply_pending_resize env s1 = Inr (created, s2)" and
      e: "effects = BlitSurface # created @ fst (transfer blitNow (update_fps env s2)) @ [Flip]" and
      s': "s' = (snd (transfer blitNow (update_fps env s2)))
                 \<lparr>frame := frame (snd (transfer blitNow (update_fps env s2))) + 1\<rparr>"
      unfolding s1_def by blast
    note f2 = apply_pending_resize_frame[OF r]
    note f3 = update_fps_frame[of env s2]
    show "if \<not> blitNow \<or> g_frameReady s
       then CondSignal_frameReceived \<in> set effects \<and> sandbox_time s' = time s \<and>
            sandbox_mouse s' =
              (fst (mousePosition s) / real_of_int (fst (screen s)),
               snd (mousePosition s) / real_of_int (snd (screen s))) \<and>
            \<not> g_cancelDraw s' \<and> \<not> g_frameReady s'
       else CondSignal_frameReceived \<notin> set effects \<and>
            sandbox_time s' = sandbox_time s \<and> sandbox_mouse s' = sandbox_mouse s \<and>
            g_cancelDraw s' = g_cancelDraw s \<and> g_frameReady s' = g_frameReady s"
    proof (cases "\<not> blitNow \<or> g_frameReady s")
      case True
      then have "\<not> blitNow \<or> g_frameReady (update_fps env s2)"
        using f2 f3 by (auto simp: s1_def)
      from transfer_done[OF this] True f2 f3 show ?thesis
        unfolding e s' by (auto simp: s1_def)
    next
      case False
      then have "blitNow" "\<not> g_frameReady (update_fps env s2)"
        using f2 f3 by (auto simp: s1_def)
      from transfer_skipped[OF this] False f2 f3 show ?thesis
        unfolding e s' by (auto simp: s1_def)
    qed
  qed
  from forced general show ?thesis by (intro conjI)
qed

theorem forced_preview_keeps_handshake_state_witness:
  "\<not> g_quit preview_state \<and> \<not> g_frameReady preview_state \<and>
   handshake_block True preview_env preview_state =
     Inr ([BlitSurface, CreateSurface 64 32, Flip],
          preview_state\<lparr>g_surface := (64, 32), sandbox_resolution := (64, 32),
                         pendingResize := False, frame := 8\<rparr>) \<and>
   BlitSurface \<in> set [BlitSurface, CreateSurface 64 32, Flip] \<and>
   CondSignal_frameReceived \<notin> set [BlitSurface, CreateSurface 64 32, Flip] \<and>
   sandbox_time (preview_state\<lparr>g_surface := (64, 32), sandbox_resolution := (64, 32),
                                pendingResize := False, frame := 8\<rparr>) = 1 \<and>
   g_cancelDraw (preview_state\<lparr>g_surface := (64, 32), sandbox_resolution := (64, 32),
                                 pendingResize := False, frame := 8\<rparr>)"
proof -
  let ?s' = "preview_state\<lparr>g_surface := (64, 32), sandbox_resolution := (64, 32),
                           pendingResize := False, frame := 8\<rparr>"
  let ?effects = "[BlitSurface, CreateSurface 64 32, Flip]"
  have pre: "\<not> g_quit preview_state \<and> \<not> g_frameReady preview_state"
    by (simp add: preview_state_def)
  have run: "handshake_block True preview_env preview_state = Inr (?effects, ?s')"
    by (simp add: handshake_block_def apply_pending_resize_def update_fps_def transfer_def
        flip_def preview_state_def preview_env_def)
  have blit: "BlitSurface \<in> set ?effects"
    by simp
  note inst = forced_preview_keeps_handshake_state[of preview_state preview_env True ?effects ?s']
  from inst pre run have "CondSignal_frameReceived \<notin> set ?effects \<and>
      sandbox_time ?s' = sandbox_time preview_state \<and>
      g_cancelDraw ?s' = g_cancelDraw preview_state"
    by simp
  then have kept: "CondSignal_frameReceived \<notin> set ?effects \<and> sandbox_time ?s' = 1 \<and>
      g_cancelDraw ?s'"
    by (simp add: preview_state_def)
  from pre run blit kept show ?thesis
    by (intro conjI) simp_all
qed

end
